theory Spec2Isabelle
  imports Complex_Main
begin

section \<open>JavaScript values and the process environment\<close>

text \<open>
  \<^verbatim>\<open>src/src/index.js\<close> reads two environment variables with the idiom
  \<^verbatim>\<open>process.env.X || fallback\<close>. A lookup in \<^verbatim>\<open>process.env\<close> yields
  \<^verbatim>\<open>undefined\<close> for an unset variable and a string (possibly empty) for a set
  one, so the three kinds of value below are all that these expressions can produce.
\<close>

datatype jsval = JUndefined | JStr string | JNum int

text \<open>ToBoolean: \<^verbatim>\<open>undefined\<close>, the empty string and the number zero are falsy.\<close>

fun truthy :: "jsval \<Rightarrow> bool" where
  "truthy JUndefined = False"
| "truthy (JStr s) = (s \<noteq> [])"
| "truthy (JNum n) = (n \<noteq> 0)"

text \<open>The operator \<^verbatim>\<open>a || b\<close>: the left operand if it is truthy, the right one otherwise.\<close>

definition js_or :: "jsval \<Rightarrow> jsval \<Rightarrow> jsval" where
  "js_or a b = (if truthy a then a else b)"

type_synonym environ = "string \<rightharpoonup> string"

definition getenv :: "environ \<Rightarrow> string \<Rightarrow> jsval" where
  "getenv env k = (case env k of None \<Rightarrow> JUndefined | Some s \<Rightarrow> JStr s)"

text \<open>
  \<^verbatim>\<open>const PORT = process.env.PORT || 9001;\<close> (line 4 of \<^verbatim>\<open>index.js\<close> and of the two
  JavaScript variants), and \<^verbatim>\<open>const PORT = process.env.PORT || 3000;\<close> in the
  TypeScript variant.
\<close>

definition PORT :: "environ \<Rightarrow> jsval" where
  "PORT env = js_or (getenv env ''PORT'') (JNum 9001)"

definition PORT_ts :: "environ \<Rightarrow> jsval" where
  "PORT_ts env = js_or (getenv env ''PORT'') (JNum 3000)"

text \<open>
  The label printed at startup, \<^verbatim>\<open>process.env.NODE_ENV || 'development'\<close> (line 41).
\<close>

definition environment_label :: "environ \<Rightarrow> jsval" where
  "environment_label env = js_or (getenv env ''NODE_ENV'') (JStr ''development'')"

text \<open>
  ToString, as a template literal applies it: a string is itself, an integer is written
  in decimal.
\<close>

definition digit_char :: "nat \<Rightarrow> char" where
  "digit_char d = ''0123456789'' ! d"

fun decimal :: "nat \<Rightarrow> string" where
  "decimal n = (if n < 10 then [digit_char n] else decimal (n div 10) @ [digit_char (n mod 10)])"

declare decimal.simps [simp del]

fun to_string :: "jsval \<Rightarrow> string" where
  "to_string JUndefined = ''undefined''"
| "to_string (JStr s) = s"
| "to_string (JNum n) = (if n < 0 then ''-'' @ decimal (nat (- n)) else decimal (nat n))"

text \<open>
  The callback of \<^verbatim>\<open>app.listen\<close> (lines 39 to 42): the two lines it writes to the
  console.
\<close>

definition listening_log :: "environ \<Rightarrow> string list" where
  "listening_log env =
     [''Server is running on port '' @ to_string (PORT env),
      ''Environment: '' @ to_string (environment_label env)]"

text \<open>A text made of one or more decimal digits, as a port number is written.\<close>

definition is_numeric :: "string \<Rightarrow> bool" where
  "is_numeric s = (s \<noteq> [] \<and> list_all (\<lambda>c. CHR ''0'' = c \<or> c \<in> set ''123456789'') s)"

section \<open>Time\<close>

text \<open>
  A \<^verbatim>\<open>Date\<close> holds a time value: a whole number of milliseconds since
  1970-01-01T00:00:00Z, at most 8.64e15 in either direction (100 million days). That is
  the range of the language's date type, so it is the type of what \<^verbatim>\<open>new Date()\<close>
  reads. \<open>millis\<close> gives the number of a time value, \<open>time_value\<close> the time value of a
  number in the range.
\<close>

typedef time_value = "{t :: int. - 8640000000000000 \<le> t \<and> t \<le> 8640000000000000}"
  morphisms millis time_value
  by (rule exI [of _ 0]) simp

text \<open>
  The two handlers that depend on time read a clock when they are called:
  \<^verbatim>\<open>process.uptime()\<close>, the seconds since the process started on the monotonic clock,
  with a fractional part, and \<^verbatim>\<open>new Date()\<close>, the wall clock. A request is therefore
  handled at a pair of readings.
\<close>

record clock =
  uptime :: real
  now :: time_value

text \<open>
  \<^verbatim>\<open>Date.prototype.toISOString\<close>, following the language standard's date
  arithmetic: the day number \<^verbatim>\<open>t div 86400000\<close> is split into a year (the last
  year that starts on or before that day), a month and a day of the month by the table
  of month lengths; the rest is the time within the day. The layout is
  \<^verbatim>\<open>YYYY-MM-DDTHH:mm:ss.sssZ\<close>; years outside 0 to 9999 are written with a sign and
  six digits. Integer division on \<open>int\<close> rounds down, as the day arithmetic requires.
\<close>

definition InLeapYear :: "int \<Rightarrow> bool" where
  "InLeapYear y = (y mod 4 = 0 \<and> (y mod 100 \<noteq> 0 \<or> y mod 400 = 0))"

definition DayFromYear :: "int \<Rightarrow> int" where
  "DayFromYear y =
     365 * (y - 1970) + (y - 1969) div 4 - (y - 1901) div 100 + (y - 1601) div 400"

text \<open>
  The year of a day number: an estimate from the mean length of a year, moved by one
  where the estimate falls on the wrong side of a new year.
\<close>

definition YearFromDay :: "int \<Rightarrow> int" where
  "YearFromDay day =
     (let y = 1970 + (400 * day) div 146097
      in if day < DayFromYear y then y - 1
         else if DayFromYear (y + 1) \<le> day then y + 1
         else y)"

text \<open>The day of the year on which month \<open>m\<close> (0 to 11) starts.\<close>

definition month_start :: "bool \<Rightarrow> int \<Rightarrow> int" where
  "month_start leap m =
     (let l = (if leap then 1 else 0)
      in if m = 0 then 0 else if m = 1 then 31 else if m = 2 then 59 + l
         else if m = 3 then 90 + l else if m = 4 then 120 + l else if m = 5 then 151 + l
         else if m = 6 then 181 + l else if m = 7 then 212 + l else if m = 8 then 243 + l
         else if m = 9 then 273 + l else if m = 10 then 304 + l else 334 + l)"

definition MonthFromDay :: "bool \<Rightarrow> int \<Rightarrow> int" where
  "MonthFromDay leap d =
     (if d < month_start leap 1 then 0 else if d < month_start leap 2 then 1
      else if d < month_start leap 3 then 2 else if d < month_start leap 4 then 3
      else if d < month_start leap 5 then 4 else if d < month_start leap 6 then 5
      else if d < month_start leap 7 then 6 else if d < month_start leap 8 then 7
      else if d < month_start leap 9 then 8 else if d < month_start leap 10 then 9
      else if d < month_start leap 11 then 10 else 11)"

text \<open>Year, month (1 to 12) and day of the month (from 1) of a day number.\<close>

definition civil :: "int \<Rightarrow> int \<times> int \<times> int" where
  "civil day =
     (let y = YearFromDay day;
          d = day - DayFromYear y;
          m = MonthFromDay (InLeapYear y) d
      in (y, m + 1, d - month_start (InLeapYear y) m + 1))"

definition pad :: "nat \<Rightarrow> int \<Rightarrow> string" where
  "pad w n = (let ds = decimal (nat n) in replicate (w - length ds) CHR ''0'' @ ds)"

definition year_text :: "int \<Rightarrow> string" where
  "year_text y =
     (if 0 \<le> y \<and> y \<le> 9999 then pad 4 y
      else if y < 0 then ''-'' @ pad 6 (- y) else ''+'' @ pad 6 y)"

definition toISOString :: "int \<Rightarrow> string" where
  "toISOString t =
     (let ms = t mod 86400000 in
      case civil (t div 86400000) of (y, m, d) \<Rightarrow>
        year_text y @ ''-'' @ pad 2 m @ ''-'' @ pad 2 d @ ''T'' @
        pad 2 (ms div 3600000) @ '':'' @ pad 2 (ms div 60000 mod 60) @ '':'' @
        pad 2 (ms div 1000 mod 60) @ ''.'' @ pad 3 (ms mod 1000) @ ''Z'')"

section \<open>Requests and responses\<close>

text \<open>
  A request as the framework presents it to the application. \<open>req_method\<close> is
  \<^verbatim>\<open>req.method\<close> and \<open>pathname\<close> the path of the URL without the query string, which
  is what the router matches. The remaining fields are what the body middleware looks at:
  \<open>has_body\<close> says that a \<^verbatim>\<open>Content-Length\<close> or \<^verbatim>\<open>Transfer-Encoding\<close> header
  announces a body, \<open>media_type\<close> is the media type of \<^verbatim>\<open>Content-Type\<close> in lower case
  without parameters (empty if there is none), \<open>charset\<close> its charset parameter in lower
  case (empty if there is none), and \<open>payload\<close> is what reading the body gives: the
  decoded text, or the reason why it could not be read (a body above the size limit, an
  unsupported content encoding, a length that contradicts the header). The last three
  are the headers of a conditional request, which \<^verbatim>\<open>res.send\<close> looks at:
  \<open>if_none_match\<close> is \<^verbatim>\<open>If-None-Match\<close>, which is absent (or empty), the single
  character \<^verbatim>\<open>*\<close>, or a comma-separated list of entity tags; \<open>if_modified_since\<close>
  says that \<^verbatim>\<open>If-Modified-Since\<close> is present; \<open>no_cache\<close> says that
  \<^verbatim>\<open>Cache-Control\<close> holds the directive \<^verbatim>\<open>no-cache\<close>.
\<close>

datatype none_match = NoneMatchAbsent | NoneMatchAny | NoneMatchTags "string list"

datatype read_failure = TooLarge | UnsupportedEncoding | SizeMismatch

datatype read_result = ReadFailed read_failure | Text string

record request =
  req_method :: string
  pathname :: string
  query :: string
  has_body :: bool
  media_type :: string
  charset :: string
  payload :: read_result
  if_none_match :: none_match
  if_modified_since :: bool
  no_cache :: bool

datatype json = JString string | JNumber int | JObject "(string \<times> json) list"

text \<open>
  The errors that the body middleware passes to the framework, with the HTTP status each
  one carries.
\<close>

datatype http_error =
  UnsupportedCharset | ReadError read_failure | StrictViolation | ParseFailed

fun error_status :: "http_error \<Rightarrow> nat" where
  "error_status UnsupportedCharset = 415"
| "error_status (ReadError TooLarge) = 413"
| "error_status (ReadError UnsupportedEncoding) = 415"
| "error_status (ReadError SizeMismatch) = 400"
| "error_status StrictViolation = 400"
| "error_status ParseFailed = 400"

text \<open>
  What the framework's final handler writes for an error: the stack trace of the error,
  or only the standard reason phrase of its status.
\<close>

datatype error_text = StackTrace http_error | ReasonPhrase nat

text \<open>
  A response body: a JSON document written by \<^verbatim>\<open>res.json\<close>, nothing (the answer to a
  HEAD request, and the body of a 304), the list of allowed methods that answers OPTIONS,
  the final handler's \<^verbatim>\<open>Cannot METHOD path\<close> page, or its error page.
\<close>

datatype body = Json json | Empty | AllowList string | CannotPage string string | ErrorPage error_text

record response =
  status :: nat
  content :: body

section \<open>Sending a response: \<^verbatim>\<open>res.send\<close> and \<^verbatim>\<open>res.json\<close>\<close>

text \<open>
  The freshness test of the framework (Express 4), for a response that carries the
  entity tag \<open>tag\<close> and no \<^verbatim>\<open>Last-Modified\<close> header, as all responses of this
  program do. A request without \<^verbatim>\<open>If-None-Match\<close> and \<^verbatim>\<open>If-Modified-Since\<close> is
  never fresh, nor is one with \<^verbatim>\<open>Cache-Control: no-cache\<close>. A list of entity tags
  must hold the tag of the response, compared weakly. \<^verbatim>\<open>If-Modified-Since\<close> cannot be
  met, since there is no modification date to compare with.
\<close>

definition tag_matches :: "string \<Rightarrow> string \<Rightarrow> bool" where
  "tag_matches tag m = (m = tag \<or> m = ''W/'' @ tag \<or> ''W/'' @ m = tag)"

definition fresh :: "request \<Rightarrow> string \<Rightarrow> bool" where
  "fresh req tag =
     (if \<not> if_modified_since req \<and> if_none_match req = NoneMatchAbsent then False
      else if no_cache req then False
      else if (case if_none_match req of
                 NoneMatchTags ms \<Rightarrow> tag = [] \<or> \<not> list_ex (tag_matches tag) ms
               | _ \<Rightarrow> False) then False
      else if if_modified_since req then False
      else True)"

text \<open>
  \<^verbatim>\<open>req.fresh\<close>: only a GET or a HEAD request can be fresh, and only when the status
  of the response so far is a success or 304.
\<close>

definition req_fresh :: "request \<Rightarrow> nat \<Rightarrow> string \<Rightarrow> bool" where
  "req_fresh req st tag =
     (if req_method req \<noteq> ''GET'' \<and> req_method req \<noteq> ''HEAD'' then False
      else if (200 \<le> st \<and> st < 300) \<or> st = 304 then fresh req tag
      else False)"

text \<open>
  \<^verbatim>\<open>res.send\<close>, which \<^verbatim>\<open>res.json\<close> ends in. With the default setting it computes an
  entity tag for the body; \<open>etag\<close> is the function that does (a hash of the bytes). If
  the request is fresh the status becomes 304. A 204 or a 304 is sent without a body,
  and so is every answer to a HEAD request.
\<close>

definition send :: "(body \<Rightarrow> string) \<Rightarrow> request \<Rightarrow> nat \<Rightarrow> body \<Rightarrow> response" where
  "send etag req st b =
     (let st' = (if req_fresh req st (etag b) then 304 else st);
          chunk = (if st' = 204 \<or> st' = 304 then Empty else b)
      in \<lparr>status = st', content = (if req_method req = ''HEAD'' then Empty else chunk)\<rparr>)"

text \<open>\<^verbatim>\<open>res.json(v)\<close> without a preceding \<^verbatim>\<open>res.status\<close>: the status starts as 200.\<close>

definition res_json :: "(body \<Rightarrow> string) \<Rightarrow> request \<Rightarrow> json \<Rightarrow> response" where
  "res_json etag req v = send etag req 200 (Json v)"

section \<open>The body middleware: \<^verbatim>\<open>app.use(express.json())\<close>\<close>

text \<open>
  Line 7 installs the JSON body parser in front of every route, for every method. It
  lets a request through untouched when no body is announced or when the media type is
  not \<^verbatim>\<open>application/json\<close>. Otherwise it insists on a \<^verbatim>\<open>utf-\<close> charset, reads
  the body and parses it: the empty text is accepted as it is; in the default strict
  mode the first character after white space must open an object or an array; the rest
  is decided by the engine's \<^verbatim>\<open>JSON.parse\<close>, which is the parameter \<open>json_ok\<close>
  (whether a text parses). An error is handed to the framework instead of calling the
  next layer. \<open>None\<close> stands for \<^verbatim>\<open>next()\<close>, \<open>Some e\<close> for \<^verbatim>\<open>next(e)\<close>.
\<close>

definition is_ws :: "char \<Rightarrow> bool" where
  "is_ws c = (c \<in> set [CHR 0x20, CHR 0x09, CHR 0x0A, CHR 0x0D])"

definition firstchar :: "string \<Rightarrow> char option" where
  "firstchar s = (case dropWhile is_ws s of [] \<Rightarrow> None | c # _ \<Rightarrow> Some c)"

definition parse :: "(string \<Rightarrow> bool) \<Rightarrow> string \<Rightarrow> http_error option" where
  "parse json_ok b =
     (if b = [] then None
      else if firstchar b \<noteq> Some CHR ''{'' \<and> firstchar b \<noteq> Some CHR ''['' then Some StrictViolation
      else if json_ok b then None
      else Some ParseFailed)"

definition jsonParser :: "(string \<Rightarrow> bool) \<Rightarrow> request \<Rightarrow> http_error option" where
  "jsonParser json_ok req =
     (if \<not> has_body req then None
      else if media_type req \<noteq> ''application/json'' then None
      else if take 4 (if charset req = [] then ''utf-8'' else charset req) \<noteq> ''utf-''
        then Some UnsupportedCharset
      else case payload req of
             ReadFailed f \<Rightarrow> Some (ReadError f)
           | Text b \<Rightarrow> parse json_ok b)"

section \<open>The final handler\<close>

text \<open>
  When no layer has answered, the framework's final handler does. Without an error it
  sends status 404 and the page \<^verbatim>\<open>Cannot METHOD path\<close>. With an error it sends the
  error's status, and as text the stack trace of the error unless the application's
  \<^verbatim>\<open>env\<close> setting is \<^verbatim>\<open>production\<close>, in which case only the reason phrase of the
  status is sent. The setting is fixed by \<^verbatim>\<open>express()\<close> (line 3) to
  \<^verbatim>\<open>process.env.NODE_ENV || 'development'\<close>. The final handler writes the response
  itself, without \<^verbatim>\<open>res.send\<close>: it leaves the body out for HEAD and has no freshness
  test.
\<close>

definition env_setting :: "environ \<Rightarrow> string" where
  "env_setting env = to_string (js_or (getenv env ''NODE_ENV'') (JStr ''development''))"

definition write_page :: "request \<Rightarrow> nat \<Rightarrow> body \<Rightarrow> response" where
  "write_page req st b =
     \<lparr>status = st, content = (if req_method req = ''HEAD'' then Empty else b)\<rparr>"

definition finalhandler :: "string \<Rightarrow> request \<Rightarrow> http_error option \<Rightarrow> response" where
  "finalhandler setting req err =
     (case err of
        None \<Rightarrow> write_page req 404 (CannotPage (req_method req) (pathname req))
      | Some e \<Rightarrow>
          write_page req (error_status e)
            (ErrorPage (if setting \<noteq> ''production'' then StackTrace e
                        else ReasonPhrase (error_status e))))"

section \<open>Route handlers\<close>

text \<open>
  The four handlers of \<^verbatim>\<open>index.js\<close>, lines 10 to 35, in the order of the file. A
  handler is called with the request and the response object; of the latter the model
  keeps the entity tag function that \<^verbatim>\<open>res.json\<close> needs.
\<close>

type_synonym handler = "(body \<Rightarrow> string) \<Rightarrow> clock \<Rightarrow> request \<Rightarrow> response"

definition root_handler :: handler where
  "root_handler etag c req =
     res_json etag req (JObject [(''message'', JString ''Hello from root API'')])"

definition health_handler :: handler where
  "health_handler etag c req =
     (let uptime = \<lfloor>uptime c\<rfloor>
      in res_json etag req
           (JObject [(''status'', JString ''ok''), (''uptime'', JNumber uptime)]))"

definition test_ci_handler :: handler where
  "test_ci_handler etag c req =
     res_json etag req (JObject
       [(''message'', JString ''Bhai!...mai bhi deploy hogya. badhai ho bhai''),
        (''timestamp'', JString (toISOString (millis (now c))))])"

definition test_docker_ecr_app_runner_handler :: handler where
  "test_docker_ecr_app_runner_handler etag c req =
     res_json etag req (JObject
       [(''message'', JString ''Sab sahi hai''),
        (''timestamp'', JString (toISOString (millis (now c))))])"

definition routes :: "(string \<times> handler) list" where
  "routes =
     [(''/'', root_handler),
      (''/health'', health_handler),
      (''/test-ci'', test_ci_handler),
      (''/test-docker-ecr-app-runner'', test_docker_ecr_app_runner_handler)]"

section \<open>The router\<close>

text \<open>
  \<^verbatim>\<open>app.get(path, handler)\<close> appends a route for the method GET to the router's
  stack. With the framework's default settings (no case sensitive routing, no strict
  routing) a route path matches a request path regardless of letter case and with or
  without one trailing slash. A route registered for GET also handles HEAD. The router
  visits the stack in order and runs the first route whose path and method match. For an
  OPTIONS request it collects the methods of the routes whose path matches and, if it has
  found any when the stack is exhausted, answers with that list through
  \<^verbatim>\<open>res.send\<close>; otherwise the request falls through to the final handler.
\<close>

definition lower_char :: "char \<Rightarrow> char" where
  "lower_char c =
     (case map_of (zip ''ABCDEFGHIJKLMNOPQRSTUVWXYZ'' ''abcdefghijklmnopqrstuvwxyz'') c of
        Some d \<Rightarrow> d
      | None \<Rightarrow> c)"

definition toLowerCase :: "string \<Rightarrow> string" where
  "toLowerCase s = map lower_char s"

definition match_path :: "string \<Rightarrow> string \<Rightarrow> bool" where
  "match_path route p =
     (let r = toLowerCase route; q = toLowerCase p
      in if r \<noteq> [] \<and> last r = CHR ''/'' then q = r \<or> q = butlast r
         else q = r \<or> q = r @ ''/'')"

definition handles_method :: "string \<Rightarrow> bool" where
  "handles_method m =
     (let name = toLowerCase m
      in (if name = ''head'' then ''get'' else name) = ''get'')"

definition appendMethods :: "string list \<Rightarrow> string list \<Rightarrow> string list" where
  "appendMethods options ms = options @ filter (\<lambda>m. m \<notin> set options) ms"

fun join :: "string list \<Rightarrow> string" where
  "join [] = []"
| "join [x] = x"
| "join (x # y # ys) = x @ '','' @ join (y # ys)"

fun router ::
  "(string \<times> handler) list \<Rightarrow> string list \<Rightarrow> (body \<Rightarrow> string) \<Rightarrow> clock \<Rightarrow> request \<Rightarrow>
   response option" where
  "router [] options etag c req =
     (if req_method req = ''OPTIONS'' \<and> options \<noteq> []
      then Some (send etag req 200 (AllowList (join options)))
      else None)"
| "router ((p, h) # layers) options etag c req =
     (if \<not> match_path p (pathname req) then router layers options etag c req
      else if handles_method (req_method req) then Some (h etag c req)
      else router layers
             (if req_method req = ''OPTIONS'' then appendMethods options [''GET'', ''HEAD'']
              else options)
             etag c req)"

section \<open>The application\<close>

text \<open>
  A request passes the body middleware first, then the router; the final handler
  answers what neither has answered. \<open>json_ok\<close> is the engine's \<^verbatim>\<open>JSON.parse\<close>,
  \<open>etag\<close> the framework's entity tag function, \<open>env\<close> the process environment at
  startup, \<open>c\<close> the clock readings at the time of the request.
\<close>

definition app ::
  "(string \<Rightarrow> bool) \<Rightarrow> (body \<Rightarrow> string) \<Rightarrow> environ \<Rightarrow> clock \<Rightarrow> request \<Rightarrow> response" where
  "app json_ok etag env c req =
     (case jsonParser json_ok req of
        Some e \<Rightarrow> finalhandler (env_setting env) req (Some e)
      | None \<Rightarrow>
          (case router routes [] etag c req of
             Some r \<Rightarrow> r
           | None \<Rightarrow> finalhandler (env_setting env) req None))"


definition field :: "string \<Rightarrow> response \<Rightarrow> json option" where
  "field k r = (case content r of Json (JObject kvs) \<Rightarrow> map_of kvs k | _ \<Rightarrow> None)"

section \<open>Reading a timestamp\<close>

text \<open>
  The specification asks that a timestamp parses as a valid ISO-8601 UTC date-time. This
  is the reader used to state that. It accepts the layout
  \<^verbatim>\<open>YYYY-MM-DDTHH:mm:ss.sssZ\<close> and the expanded one with a sign and a six-digit year
  (but not the year \<^verbatim>\<open>-000000\<close>), with decimal digits in the fields, a month from 1 to
  12, a day that exists in that month of that year, an hour up to 23, minutes and seconds
  up to 59, and yields the instant in milliseconds since 1970-01-01T00:00:00Z.
\<close>

definition is_digit :: "char \<Rightarrow> bool" where
  "is_digit c = (c \<in> set ''0123456789'')"

definition digit_value :: "char \<Rightarrow> int" where
  "digit_value c = int (of_char c) - 48"

definition number :: "string \<Rightarrow> int" where
  "number s = foldl (\<lambda>a c. 10 * a + digit_value c) 0 s"

definition DaysInMonth :: "int \<Rightarrow> int \<Rightarrow> int" where
  "DaysInMonth y m =
     (if m = 12 then 31
      else month_start (InLeapYear y) m - month_start (InLeapYear y) (m - 1))"

definition MakeTime :: "int \<Rightarrow> int \<Rightarrow> int \<Rightarrow> int \<Rightarrow> int \<Rightarrow> int \<Rightarrow> int \<Rightarrow> int option" where
  "MakeTime y mo d h mi s ms =
     (if 1 \<le> mo \<and> mo \<le> 12 \<and> 1 \<le> d \<and> d \<le> DaysInMonth y mo \<and>
         h \<le> 23 \<and> mi \<le> 59 \<and> s \<le> 59
      then Some ((DayFromYear y + month_start (InLeapYear y) (mo - 1) + d - 1) * 86400000 +
                 h * 3600000 + mi * 60000 + s * 1000 + ms)
      else None)"

definition parse_tail :: "int \<Rightarrow> string \<Rightarrow> int option" where
  "parse_tail y s =
     (if length s = 20 \<and>
         s ! 0 = CHR ''-'' \<and> s ! 3 = CHR ''-'' \<and> s ! 6 = CHR ''T'' \<and> s ! 9 = CHR '':'' \<and>
         s ! 12 = CHR '':'' \<and> s ! 15 = CHR ''.'' \<and> s ! 19 = CHR ''Z'' \<and>
         list_all is_digit
           (take 2 (drop 1 s) @ take 2 (drop 4 s) @ take 2 (drop 7 s) @
            take 2 (drop 10 s) @ take 2 (drop 13 s) @ take 3 (drop 16 s))
      then MakeTime y (number (take 2 (drop 1 s))) (number (take 2 (drop 4 s)))
             (number (take 2 (drop 7 s))) (number (take 2 (drop 10 s)))
             (number (take 2 (drop 13 s))) (number (take 3 (drop 16 s)))
      else None)"

definition parse_iso8601 :: "string \<Rightarrow> int option" where
  "parse_iso8601 s =
     (case s of
        [] \<Rightarrow> None
      | c # cs \<Rightarrow>
          if c = CHR ''+'' \<or> c = CHR ''-'' then
            (let ys = take 6 cs
             in if length ys = 6 \<and> list_all is_digit ys \<and> \<not> (c = CHR ''-'' \<and> number ys = 0)
                then parse_tail (if c = CHR ''-'' then - number ys else number ys) (drop 6 cs)
                else None)
          else
            (let ys = take 4 s
             in if length ys = 4 \<and> list_all is_digit ys then parse_tail (number ys) (drop 4 s)
                else None))"

text \<open>The instant that the \<^verbatim>\<open>timestamp\<close> member of a response denotes, if it has one.\<close>

definition instant :: "response \<Rightarrow> int option" where
  "instant r = (case field ''timestamp'' r of Some (JString s) \<Rightarrow> parse_iso8601 s | _ \<Rightarrow> None)"

section \<open>Port resolution\<close>

lemma getenv_unset: "env k = None \<Longrightarrow> getenv env k = JUndefined"
  by (simp add: getenv_def)

lemma getenv_set: "env k = Some s \<Longrightarrow> getenv env k = JStr s"
  by (simp add: getenv_def)

lemma is_numeric_nonempty: "is_numeric s \<Longrightarrow> s \<noteq> []"
  by (simp add: is_numeric_def)

text \<open>
  Claim C5. With \<^verbatim>\<open>PORT\<close> unset the port constant is the default, 9001 in
  \<^verbatim>\<open>index.js\<close> and 3000 in the TypeScript variant. With \<^verbatim>\<open>PORT\<close> set to a text of
  decimal digits, \<^verbatim>\<open>0\<close> included, the constant is exactly that text, and so is what the
  startup line prints for it. The constant is a function of the startup environment
  alone: no request and no clock reading enters it.
\<close>

theorem port_resolution:
  "(env ''PORT'' = None \<longrightarrow> PORT env = JNum 9001 \<and> PORT_ts env = JNum 3000) \<and>
   (\<forall>s. env ''PORT'' = Some s \<and> is_numeric s \<longrightarrow>
      PORT env = JStr s \<and> PORT_ts env = JStr s \<and> to_string (PORT env) = s)"
  by (auto simp: PORT_def PORT_ts_def js_or_def getenv_unset getenv_set is_numeric_nonempty)

theorem port_resolution_witness:
  "PORT Map.empty = JNum 9001 \<and> PORT_ts Map.empty = JNum 3000 \<and>
   is_numeric ''0'' \<and> PORT [''PORT'' \<mapsto> ''0''] = JStr ''0'' \<and>
   PORT_ts [''PORT'' \<mapsto> ''0''] = JStr ''0'' \<and>
   is_numeric ''8080'' \<and> PORT [''PORT'' \<mapsto> ''8080''] = JStr ''8080''"
proof -
  have n0: "is_numeric ''0''" and n1: "is_numeric ''8080''"
    by (simp_all add: is_numeric_def)
  show ?thesis
    using port_resolution [of Map.empty] port_resolution [of "[''PORT'' \<mapsto> ''0'']"]
      port_resolution [of "[''PORT'' \<mapsto> ''8080'']"] n0 n1
    by simp
qed

text \<open>
  Claim C10. A \<^verbatim>\<open>PORT\<close> that is set to a falsy text, and the empty text is the only
  one, resolves to the default 9001, the same as with \<^verbatim>\<open>PORT\<close> removed from the
  environment: \<^verbatim>\<open>||\<close> tests the value, not the presence of the variable.
\<close>

theorem empty_port_falls_back:
  assumes "env ''PORT'' = Some s" and "\<not> truthy (JStr s)"
  shows "s = [] \<and> PORT env = JNum 9001 \<and> PORT env = PORT (env(''PORT'' := None))"
  using assms by (simp add: PORT_def js_or_def getenv_def)

theorem empty_port_falls_back_witness:
  "PORT [''PORT'' \<mapsto> ''''] = JNum 9001 \<and> PORT [''PORT'' \<mapsto> ''''] = PORT Map.empty"
proof -
  have upd: "[''PORT'' \<mapsto> ''''](''PORT'' := None) = Map.empty"
    by simp
  have "PORT [''PORT'' \<mapsto> ''''] = JNum 9001 \<and>
        PORT [''PORT'' \<mapsto> ''''] = PORT ([''PORT'' \<mapsto> ''''](''PORT'' := None))"
    using empty_port_falls_back [of "[''PORT'' \<mapsto> '''']" "''''"] by auto
  then show ?thesis
    unfolding upd .
qed

section \<open>Responses\<close>

text \<open>How the router and the middleware treat the requests the claims speak about.\<close>

lemma lower_lits:
  "toLowerCase ''/'' = ''/''"
  "toLowerCase ''/health'' = ''/health''"
  "toLowerCase ''/test-ci'' = ''/test-ci''"
  "toLowerCase ''/test-docker-ecr-app-runner'' = ''/test-docker-ecr-app-runner''"
  "toLowerCase ''GET'' = ''get''"
  "toLowerCase ''HEAD'' = ''head''"
  "toLowerCase ''OPTIONS'' = ''options''"
  by (simp_all add: toLowerCase_def lower_char_def)

lemma handles_GET: "handles_method ''GET''" and handles_HEAD: "handles_method ''HEAD''"
  and handles_OPTIONS: "\<not> handles_method ''OPTIONS''"
  by (simp_all add: handles_method_def lower_lits)

lemma router_root:
  "pathname req = ''/'' \<Longrightarrow> handles_method (req_method req) \<Longrightarrow>
   router routes [] etag c req = Some (root_handler etag c req)"
  by (simp add: routes_def match_path_def lower_lits)

lemma router_health:
  "pathname req = ''/health'' \<Longrightarrow> handles_method (req_method req) \<Longrightarrow>
   router routes [] etag c req = Some (health_handler etag c req)"
  by (simp add: routes_def match_path_def lower_lits)

lemma router_test_ci:
  "pathname req = ''/test-ci'' \<Longrightarrow> handles_method (req_method req) \<Longrightarrow>
   router routes [] etag c req = Some (test_ci_handler etag c req)"
  by (simp add: routes_def match_path_def lower_lits)

lemma app_passed:
  "jsonParser json_ok req = None \<Longrightarrow>
   app json_ok etag env c req =
     (case router routes [] etag c req of Some r \<Rightarrow> r
      | None \<Rightarrow> finalhandler (env_setting env) req None)"
  by (simp add: app_def)

lemma app_rejected:
  "jsonParser json_ok req = Some e \<Longrightarrow>
   app json_ok etag env c req = finalhandler (env_setting env) req (Some e)"
  by (simp add: app_def)

lemma jsonParser_no_body: "\<not> has_body req \<Longrightarrow> jsonParser json_ok req = None"
  by (simp add: jsonParser_def)

text \<open>
  What \<^verbatim>\<open>res.send\<close> makes of a response that starts with status 200: a 304 without a
  body if the request is fresh, the response as it is otherwise. A request without
  \<^verbatim>\<open>If-None-Match\<close> is never fresh.
\<close>

lemma fresh_unconditional: "if_none_match req = NoneMatchAbsent \<Longrightarrow> \<not> fresh req tag"
  by (simp add: fresh_def)

lemma send_GET:
  "req_method req = ''GET'' \<Longrightarrow>
   send etag req 200 b =
     (if fresh req (etag b) then \<lparr>status = 304, content = Empty\<rparr>
      else \<lparr>status = 200, content = b\<rparr>)"
  by (simp add: send_def req_fresh_def Let_def)

lemma send_status: "status (send etag req 200 b) \<in> {200, 304}"
  by (simp add: send_def Let_def)



lemma handler_status:
  "status (root_handler etag c req) \<in> {200, 304}"
  "status (health_handler etag c req) \<in> {200, 304}"
  "status (test_ci_handler etag c req) \<in> {200, 304}"
  "status (test_docker_ecr_app_runner_handler etag c req) \<in> {200, 304}"
  unfolding root_handler_def health_handler_def test_ci_handler_def
    test_docker_ecr_app_runner_handler_def res_json_def Let_def
  by (rule send_status)+

lemma router_status:
  assumes "router routes [] etag c req = Some r"
  shows "status r \<in> {200, 304}"
proof -
  from assms have "r = root_handler etag c req \<or> r = health_handler etag c req \<or>
      r = test_ci_handler etag c req \<or> r = test_docker_ecr_app_runner_handler etag c req \<or>
      (\<exists>b. r = send etag req 200 b)"
    by (auto simp: routes_def split: if_splits)
  then show ?thesis
    using handler_status [of etag c req] send_status [of etag req] by auto
qed


lemma error_status_range: "error_status e \<in> {400, 413, 415}"
  by (cases e rule: error_status.cases) simp_all

lemma field_send:
  "field k (send etag req 200 (Json (JObject kvs))) =
     (if status (send etag req 200 (Json (JObject kvs))) = 200 \<and> req_method req \<noteq> ''HEAD''
      then map_of kvs k else None)"
  by (simp add: field_def send_def Let_def)

lemma field_finalhandler: "field k (finalhandler s req err) = None"
  by (simp add: field_def finalhandler_def write_page_def split: option.splits)

text \<open>
  Claim C1, as stated, fails for two kinds of GET request for \<^verbatim>\<open>/health\<close>. One that
  carries a JSON body which does not parse (here the text \<^verbatim>\<open>x\<close>) is answered by
  the body middleware's error, status 400, before the route is reached. One that carries
  \<^verbatim>\<open>If-None-Match: *\<close> is answered with status 304 and no body. The engine is taken to
  accept every text (\<open>top\<close>) and the tag function to be constant; neither is consulted.
\<close>

theorem health_counterexample:
  "status (app top (\<lambda>b. ''tag'') Map.empty \<lparr>uptime = 0, now = time_value 0\<rparr>
     \<lparr>req_method = ''GET'', pathname = ''/health'', query = [], has_body = True,
      media_type = ''application/json'', charset = [], payload = Text ''x'',
      if_none_match = NoneMatchAbsent, if_modified_since = False, no_cache = False\<rparr>) = 400 \<and>
   app top (\<lambda>b. ''tag'') Map.empty \<lparr>uptime = 0, now = time_value 0\<rparr>
     \<lparr>req_method = ''GET'', pathname = ''/health'', query = [], has_body = False,
      media_type = [], charset = [], payload = Text [],
      if_none_match = NoneMatchAny, if_modified_since = False, no_cache = False\<rparr> =
     \<lparr>status = 304, content = Empty\<rparr>"
  by (simp add: app_def jsonParser_def parse_def firstchar_def is_ws_def finalhandler_def
      write_page_def router_health handles_GET health_handler_def res_json_def send_GET fresh_def)

text \<open>
  Claim C1, amended. Every GET request for \<^verbatim>\<open>/health\<close> that the body middleware lets
  through is answered either with status 304 and no body, which happens exactly when the
  framework finds the request fresh, or with status 200 and the body
  \<^verbatim>\<open>{"status": "ok", "uptime": u}\<close>, where \<open>u\<close> is the floor of the reading of
  \<^verbatim>\<open>process.uptime()\<close> taken at the call, a non-negative integer since the reading is
  not negative. A request without \<^verbatim>\<open>If-None-Match\<close> always gets the latter.
\<close>

theorem health_response:
  assumes "req_method req = ''GET''" and "pathname req = ''/health''"
    and "jsonParser json_ok req = None" and "0 \<le> uptime c"
  shows "app json_ok etag env c req =
           (if fresh req (etag (Json (JObject [(''status'', JString ''ok''), (''uptime'', JNumber \<lfloor>uptime c\<rfloor>)])))
            then \<lparr>status = 304, content = Empty\<rparr>
            else \<lparr>status = 200, content = Json (JObject [(''status'', JString ''ok''), (''uptime'', JNumber \<lfloor>uptime c\<rfloor>)])\<rparr>) \<and>
         (if_none_match req = NoneMatchAbsent \<longrightarrow>
            app json_ok etag env c req =
              \<lparr>status = 200, content = Json (JObject [(''status'', JString ''ok''), (''uptime'', JNumber \<lfloor>uptime c\<rfloor>)])\<rparr>) \<and>
         0 \<le> \<lfloor>uptime c\<rfloor>"
proof -
  have "router routes [] etag c req = Some (health_handler etag c req)"
    using assms(1,2) by (simp add: router_health handles_GET)
  then have "app json_ok etag env c req = health_handler etag c req"
    using assms(3) by (simp add: app_passed)
  then show ?thesis
    using assms(1,4) by (simp add: health_handler_def res_json_def send_GET fresh_unconditional)
qed

theorem health_response_witness:
  "app top (\<lambda>b. ''tag'') Map.empty \<lparr>uptime = 7 / 2, now = time_value 0\<rparr>
     \<lparr>req_method = ''GET'', pathname = ''/health'', query = [], has_body = False,
      media_type = [], charset = [], payload = Text [],
      if_none_match = NoneMatchAbsent, if_modified_since = False, no_cache = False\<rparr> =
   \<lparr>status = 200, content = Json (JObject [(''status'', JString ''ok''), (''uptime'', JNumber 3)])\<rparr>"
  using health_response [where req = "\<lparr>req_method = ''GET'', pathname = ''/health'', query = [], has_body = False,
         media_type = [], charset = [], payload = Text [],
         if_none_match = NoneMatchAbsent, if_modified_since = False, no_cache = False\<rparr>"
      and json_ok = top and etag = "(\<lambda>b. ''tag'')" and c = "\<lparr>uptime = 7 / 2, now = time_value 0\<rparr>"
      and env = Map.empty]
  by (simp add: jsonParser_def fresh_def)

text \<open>
  Claim C2, as stated, fails: the answer to GET \<^verbatim>\<open>/\<close> does depend on the headers and
  the body. With \<^verbatim>\<open>Content-Type: application/json\<close> and the body \<^verbatim>\<open>x\<close> the answer
  is the error page with status 400, and with \<^verbatim>\<open>If-None-Match: *\<close> it is a 304
  without a body.
\<close>

theorem root_counterexample:
  "app top (\<lambda>b. ''tag'') Map.empty \<lparr>uptime = 0, now = time_value 0\<rparr>
     \<lparr>req_method = ''GET'', pathname = ''/'', query = [], has_body = True,
      media_type = ''application/json'', charset = [], payload = Text ''x'',
      if_none_match = NoneMatchAbsent, if_modified_since = False, no_cache = False\<rparr> =
     \<lparr>status = 400, content = ErrorPage (StackTrace StrictViolation)\<rparr> \<and>
   app top (\<lambda>b. ''tag'') Map.empty \<lparr>uptime = 0, now = time_value 0\<rparr>
     \<lparr>req_method = ''GET'', pathname = ''/'', query = [], has_body = False,
      media_type = [], charset = [], payload = Text [],
      if_none_match = NoneMatchAny, if_modified_since = False, no_cache = False\<rparr> =
     \<lparr>status = 304, content = Empty\<rparr>"
  by (simp add: app_def jsonParser_def parse_def firstchar_def is_ws_def finalhandler_def
      write_page_def env_setting_def getenv_def js_or_def
      router_root handles_GET root_handler_def res_json_def send_GET fresh_def)

text \<open>
  Claim C2, amended. Every GET request for \<^verbatim>\<open>/\<close> that the body middleware lets
  through is answered either with status 304 and no body, exactly when the framework
  finds the request fresh, or with status 200 and exactly
  \<^verbatim>\<open>{"message": "Hello from root API"}\<close>; a request without \<^verbatim>\<open>If-None-Match\<close> always
  gets the latter, whatever the time, the environment, the query string and the headers
  that the body middleware does not act on.
\<close>

theorem root_response:
  assumes "req_method req = ''GET''" and "pathname req = ''/''"
    and "jsonParser json_ok req = None"
  shows "app json_ok etag env c req =
           (if fresh req (etag (Json (JObject [(''message'', JString ''Hello from root API'')])))
            then \<lparr>status = 304, content = Empty\<rparr>
            else \<lparr>status = 200, content = Json (JObject [(''message'', JString ''Hello from root API'')])\<rparr>) \<and>
         (if_none_match req = NoneMatchAbsent \<longrightarrow>
            app json_ok etag env c req =
              \<lparr>status = 200, content = Json (JObject [(''message'', JString ''Hello from root API'')])\<rparr>)"
proof -
  have "router routes [] etag c req = Some (root_handler etag c req)"
    using assms(1,2) by (simp add: router_root handles_GET)
  then have "app json_ok etag env c req = root_handler etag c req"
    using assms(3) by (simp add: app_passed)
  then show ?thesis
    using assms(1) by (simp add: root_handler_def res_json_def send_GET fresh_unconditional)
qed

theorem root_response_witness:
  "app top (\<lambda>b. ''tag'') [''NODE_ENV'' \<mapsto> ''production''] \<lparr>uptime = 12, now = time_value 1700000000000\<rparr>
     \<lparr>req_method = ''GET'', pathname = ''/'', query = ''a=1'', has_body = True,
      media_type = ''text/plain'', charset = [], payload = Text ''x'',
      if_none_match = NoneMatchAbsent, if_modified_since = True, no_cache = False\<rparr> =
   \<lparr>status = 200, content = Json (JObject [(''message'', JString ''Hello from root API'')])\<rparr>"
  using root_response [where req = "\<lparr>req_method = ''GET'', pathname = ''/'', query = ''a=1'', has_body = True,
         media_type = ''text/plain'', charset = [], payload = Text ''x'',
         if_none_match = NoneMatchAbsent, if_modified_since = True, no_cache = False\<rparr>"
      and json_ok = top and etag = "(\<lambda>b. ''tag'')" and c = "\<lparr>uptime = 12, now = time_value 1700000000000\<rparr>"
      and env = "[''NODE_ENV'' \<mapsto> ''production'']"]
  by (simp add: jsonParser_def fresh_def)

lemma app_health_field:
  assumes "req_method r = ''GET''" and "pathname r = ''/health''"
    and "field ''uptime'' (app json_ok etag env c r) = Some v"
  shows "v = JNumber \<lfloor>uptime c\<rfloor>"
proof (cases "jsonParser json_ok r")
  case None
  have "router routes [] etag c r = Some (health_handler etag c r)"
    using assms(1,2) by (simp add: router_health handles_GET)
  with None have "app json_ok etag env c r = health_handler etag c r"
    by (simp add: app_passed)
  with assms(3) show ?thesis
    by (simp add: health_handler_def res_json_def field_send split: if_splits)
next
  case (Some e)
  with assms(3) show ?thesis
    by (simp add: app_rejected field_finalhandler)
qed

text \<open>
  Claim C3. Of two GET requests for \<^verbatim>\<open>/health\<close> served by one process, the second made
  when the process uptime is the same or larger, the second reports an uptime that is
  greater than or equal to the first's.
\<close>

theorem uptime_monotone:
  assumes "req_method r1 = ''GET''" and "pathname r1 = ''/health''"
    and "req_method r2 = ''GET''" and "pathname r2 = ''/health''"
    and "field ''uptime'' (app json_ok etag env c1 r1) = Some (JNumber u1)"
    and "field ''uptime'' (app json_ok etag env c2 r2) = Some (JNumber u2)"
    and "uptime c1 \<le> uptime c2"
  shows "u1 \<le> u2"
proof -
  have "u1 = \<lfloor>uptime c1\<rfloor>" and "u2 = \<lfloor>uptime c2\<rfloor>"
    using app_health_field [OF assms(1,2,5)] app_health_field [OF assms(3,4,6)] by simp_all
  with assms(7) show ?thesis
    by (simp add: floor_mono)
qed

theorem uptime_monotone_witness:
  "field ''uptime'' (app top (\<lambda>b. ''tag'') Map.empty \<lparr>uptime = 3 / 2, now = time_value 0\<rparr>
     \<lparr>req_method = ''GET'', pathname = ''/health'', query = [], has_body = False,
      media_type = [], charset = [], payload = Text [],
      if_none_match = NoneMatchAbsent, if_modified_since = False, no_cache = False\<rparr>) = Some (JNumber 1) \<and>
   field ''uptime'' (app top (\<lambda>b. ''tag'') Map.empty \<lparr>uptime = 7 / 2, now = time_value 2000\<rparr>
     \<lparr>req_method = ''GET'', pathname = ''/health'', query = [], has_body = False,
      media_type = [], charset = [], payload = Text [],
      if_none_match = NoneMatchAbsent, if_modified_since = False, no_cache = False\<rparr>) = Some (JNumber 3) \<and>
   (1::int) \<le> 3"
proof -
  let ?r = "\<lparr>req_method = ''GET'', pathname = ''/health'', query = [], has_body = False,
       media_type = [], charset = [], payload = Text [],
       if_none_match = NoneMatchAbsent, if_modified_since = False, no_cache = False\<rparr>"
  have r: "router routes [] etag c ?r = Some (health_handler etag c ?r)" for etag c
    by (simp add: router_health handles_GET)
  have h1: "field ''uptime'' (app top (\<lambda>b. ''tag'') Map.empty \<lparr>uptime = 3 / 2, now = time_value 0\<rparr> ?r) =
      Some (JNumber 1)"
    by (simp add: app_passed jsonParser_no_body r health_handler_def res_json_def send_GET
        fresh_def field_def)
  have h2: "field ''uptime'' (app top (\<lambda>b. ''tag'') Map.empty \<lparr>uptime = 7 / 2, now = time_value 2000\<rparr> ?r) =
      Some (JNumber 3)"
    by (simp add: app_passed jsonParser_no_body r health_handler_def res_json_def send_GET
        fresh_def field_def)
  have "(1::int) \<le> 3"
    by (rule uptime_monotone [OF _ _ _ _ h1 h2]) simp_all
  with h1 h2 show ?thesis
    by blast
qed









text \<open>
  Claim C6, as stated, fails: request handling does read and parse caller-supplied data.
  A POST with the JSON body \<^verbatim>\<open>hello\<close> is rejected by the parser, and the response is
  an error page with status 400, which is not the not-found response.
\<close>

theorem error_responses_counterexample:
  "jsonParser top
     \<lparr>req_method = ''POST'', pathname = ''/test-ci'', query = [], has_body = True,
      media_type = ''application/json'', charset = [], payload = Text ''hello'',
      if_none_match = NoneMatchAbsent, if_modified_since = False, no_cache = False\<rparr> =
     Some StrictViolation \<and>
   app top (\<lambda>b. ''tag'') Map.empty \<lparr>uptime = 0, now = time_value 0\<rparr>
     \<lparr>req_method = ''POST'', pathname = ''/test-ci'', query = [], has_body = True,
      media_type = ''application/json'', charset = [], payload = Text ''hello'',
      if_none_match = NoneMatchAbsent, if_modified_since = False, no_cache = False\<rparr> =
     \<lparr>status = 400, content = ErrorPage (StackTrace StrictViolation)\<rparr>"
  by (simp add: app_def jsonParser_def parse_def firstchar_def is_ws_def finalhandler_def
      write_page_def env_setting_def getenv_def js_or_def)

text \<open>
  Claim C6, amended. No route handler fails: each one answers, whatever the request,
  with status 200, or 304 when the framework finds the request fresh. A request that the
  body middleware lets through is answered with 200, 304 or the not-found status 404.
  The only other responses are those for a request whose JSON body the middleware cannot
  read or parse: the status of that error, which is 400, 413 or 415. A request that
  announces no body, or a body that is not JSON, is always let through.
\<close>

theorem error_responses:
  "list_all (\<lambda>(p, h). status (h etag c req) \<in> {200, 304}) routes \<and>
   (jsonParser json_ok req = None \<longrightarrow> status (app json_ok etag env c req) \<in> {200, 304, 404}) \<and>
   (\<forall>e. jsonParser json_ok req = Some e \<longrightarrow>
      status (app json_ok etag env c req) = error_status e \<and>
      error_status e \<in> {400, 413, 415}) \<and>
   (\<not> has_body req \<or> media_type req \<noteq> ''application/json'' \<longrightarrow>
      jsonParser json_ok req = None)"
proof -
  have "list_all (\<lambda>(p, h). status (h etag c req) \<in> {200, 304}) routes"
    using handler_status [of etag c req] by (simp add: routes_def)
  moreover have "status (app json_ok etag env c req) \<in> {200, 304, 404}"
    if "jsonParser json_ok req = None"
  proof (cases "router routes [] etag c req")
    case None
    with that show ?thesis
      by (simp add: app_passed finalhandler_def write_page_def)
  next
    case (Some r)
    with that router_status [OF Some] show ?thesis
      by (auto simp: app_passed)
  qed
  moreover have "status (app json_ok etag env c req) = error_status e \<and>
      error_status e \<in> {400, 413, 415}"
    if "jsonParser json_ok req = Some e" for e
    using that error_status_range [of e]
    by (simp add: app_rejected finalhandler_def write_page_def)
  moreover have "jsonParser json_ok req = None"
    if "\<not> has_body req \<or> media_type req \<noteq> ''application/json''"
    using that by (auto simp: jsonParser_def)
  ultimately show ?thesis
    by blast
qed

theorem error_responses_witness:
  "status (app top (\<lambda>b. ''tag'') Map.empty \<lparr>uptime = 0, now = time_value 0\<rparr>
     \<lparr>req_method = ''POST'', pathname = ''/test-ci'', query = [], has_body = False,
      media_type = [], charset = [], payload = Text [],
      if_none_match = NoneMatchAbsent, if_modified_since = False, no_cache = False\<rparr>) \<in> {200, 304, 404} \<and>
   status (app top (\<lambda>b. ''tag'') Map.empty \<lparr>uptime = 0, now = time_value 0\<rparr>
     \<lparr>req_method = ''GET'', pathname = ''/test-ci'', query = [], has_body = True,
      media_type = ''application/json'', charset = ''latin1'', payload = Text ''{}'',
      if_none_match = NoneMatchAbsent, if_modified_since = False, no_cache = False\<rparr>) = 415"
  using
    error_responses [where req = "\<lparr>req_method = ''POST'', pathname = ''/test-ci'', query = [], has_body = False,
         media_type = [], charset = [], payload = Text [],
         if_none_match = NoneMatchAbsent, if_modified_since = False, no_cache = False\<rparr>"
      and json_ok = top and etag = "(\<lambda>b. ''tag'')" and env = Map.empty and c = "\<lparr>uptime = 0, now = time_value 0\<rparr>"]
    error_responses [where req = "\<lparr>req_method = ''GET'', pathname = ''/test-ci'', query = [], has_body = True,
         media_type = ''application/json'', charset = ''latin1'', payload = Text ''{}'',
         if_none_match = NoneMatchAbsent, if_modified_since = False, no_cache = False\<rparr>"
      and json_ok = top and etag = "(\<lambda>b. ''tag'')" and env = Map.empty and c = "\<lparr>uptime = 0, now = time_value 0\<rparr>"]
  by (simp add: jsonParser_def)

text \<open>
  Claim C9, as stated, fails: two runs that differ only in \<^verbatim>\<open>NODE_ENV\<close> answer the
  same request differently. For a GET \<^verbatim>\<open>/health\<close> with a JSON body that does not
  parse, the error page holds only the reason phrase under \<^verbatim>\<open>production\<close> and the
  stack trace of the error under \<^verbatim>\<open>development\<close>.
\<close>

theorem node_env_counterexample:
  "app top (\<lambda>b. ''tag'') [''NODE_ENV'' \<mapsto> ''production''] \<lparr>uptime = 0, now = time_value 0\<rparr>
     \<lparr>req_method = ''GET'', pathname = ''/health'', query = [], has_body = True,
      media_type = ''application/json'', charset = [], payload = Text ''x'',
      if_none_match = NoneMatchAbsent, if_modified_since = False, no_cache = False\<rparr> =
     \<lparr>status = 400, content = ErrorPage (ReasonPhrase 400)\<rparr> \<and>
   app top (\<lambda>b. ''tag'') [''NODE_ENV'' \<mapsto> ''development''] \<lparr>uptime = 0, now = time_value 0\<rparr>
     \<lparr>req_method = ''GET'', pathname = ''/health'', query = [], has_body = True,
      media_type = ''application/json'', charset = [], payload = Text ''x'',
      if_none_match = NoneMatchAbsent, if_modified_since = False, no_cache = False\<rparr> =
     \<lparr>status = 400, content = ErrorPage (StackTrace StrictViolation)\<rparr>"
  by (simp add: app_def jsonParser_def parse_def firstchar_def is_ws_def finalhandler_def
      write_page_def env_setting_def getenv_def js_or_def)

text \<open>
  Claim C9, amended. For two runs whose environments differ only in \<^verbatim>\<open>NODE_ENV\<close> the
  responses to a request are identical whenever the body middleware lets the request
  through, and also for a rejected request when both runs or neither run has the value
  \<^verbatim>\<open>production\<close>. The port is the same in both runs.
\<close>

theorem node_env_noninterference:
  assumes "\<forall>k. k \<noteq> ''NODE_ENV'' \<longrightarrow> env1 k = env2 k"
    and "jsonParser json_ok req = None \<or>
         (env_setting env1 = ''production'' \<longleftrightarrow> env_setting env2 = ''production'')"
  shows "app json_ok etag env1 c req = app json_ok etag env2 c req \<and> PORT env1 = PORT env2"
proof -
  have "env1 ''PORT'' = env2 ''PORT''"
    using assms(1) by simp
  then have port: "PORT env1 = PORT env2"
    by (simp add: PORT_def getenv_def)
  have "app json_ok etag env1 c req = app json_ok etag env2 c req"
  proof (cases "jsonParser json_ok req")
    case None
    then show ?thesis
      by (simp add: app_passed finalhandler_def split: option.splits)
  next
    case (Some e)
    with assms(2) show ?thesis
      by (simp add: app_rejected finalhandler_def)
  qed
  with port show ?thesis
    by simp
qed

theorem node_env_noninterference_witness:
  "app top (\<lambda>b. ''tag'') [''NODE_ENV'' \<mapsto> ''production''] \<lparr>uptime = 5, now = time_value 0\<rparr>
     \<lparr>req_method = ''GET'', pathname = ''/health'', query = [], has_body = False,
      media_type = [], charset = [], payload = Text [],
      if_none_match = NoneMatchAbsent, if_modified_since = False, no_cache = False\<rparr> =
   app top (\<lambda>b. ''tag'') [''NODE_ENV'' \<mapsto> ''staging''] \<lparr>uptime = 5, now = time_value 0\<rparr>
     \<lparr>req_method = ''GET'', pathname = ''/health'', query = [], has_body = False,
      media_type = [], charset = [], payload = Text [],
      if_none_match = NoneMatchAbsent, if_modified_since = False, no_cache = False\<rparr>"
  using node_env_noninterference [where ?env1.0 = "[''NODE_ENV'' \<mapsto> ''production'']"
      and ?env2.0 = "[''NODE_ENV'' \<mapsto> ''staging'']" and json_ok = top and etag = "(\<lambda>b. ''tag'')"
      and c = "\<lparr>uptime = 5, now = time_value 0\<rparr>"
      and req = "\<lparr>req_method = ''GET'', pathname = ''/health'', query = [], has_body = False,
         media_type = [], charset = [], payload = Text [],
         if_none_match = NoneMatchAbsent, if_modified_since = False, no_cache = False\<rparr>"]
  by (simp add: jsonParser_def)

section \<open>Timestamps\<close>

text \<open>
  The year computed for a day number is the year that contains the day: the day lies on
  or after that year's first day and before the next year's. The estimate is within one
  year of it because 400 years hold 146097 days and the first day of a year is never more
  than two days away from that mean.
\<close>

lemma DayFromYear_bounds:
  "146097 * y - 287811596 \<le> 400 * DayFromYear y"
  "400 * DayFromYear y \<le> 146097 * y - 287810501"
proof -
  define q1 r1 q2 r2 q3 r3 where "q1 = (y - 1969) div 4" and "r1 = (y - 1969) mod 4"
    and "q2 = (y - 1901) div 100" and "r2 = (y - 1901) mod 100"
    and "q3 = (y - 1601) div 400" and "r3 = (y - 1601) mod 400"
  have 1: "y - 1969 = 4 * q1 + r1" "0 \<le> r1" "r1 < 4"
    and 2: "y - 1901 = 100 * q2 + r2" "0 \<le> r2" "r2 < 100"
    and 3: "y - 1601 = 400 * q3 + r3" "0 \<le> r3" "r3 < 400"
    by (simp_all add: q1_def r1_def q2_def r2_def q3_def r3_def)
  have D: "400 * DayFromYear y = 146000 * y - 287620000 + 400 * q1 - 400 * q2 + 400 * q3"
    by (simp add: DayFromYear_def q1_def q2_def q3_def algebra_simps)
  show "146097 * y - 287811596 \<le> 400 * DayFromYear y"
    using 1 2 3 unfolding D by linarith
  show "400 * DayFromYear y \<le> 146097 * y - 287810501"
    using 1 2 3 unfolding D by linarith
qed

lemma estimate_bounds:
  fixes d :: int
  defines "e \<equiv> (400 * d) div 146097"
  shows "146097 * e \<le> 400 * d" and "400 * d < 146097 * e + 146097"
proof -
  have "400 * d = 146097 * e + (400 * d) mod 146097"
    by (simp add: e_def)
  moreover have "0 \<le> (400 * d) mod 146097" "(400 * d) mod 146097 < 146097"
    by simp_all
  ultimately show "146097 * e \<le> 400 * d" and "400 * d < 146097 * e + 146097"
    by linarith+
qed

lemma YearFromDay_spec:
  "DayFromYear (YearFromDay d) \<le> d \<and> d < DayFromYear (YearFromDay d + 1)"
proof -
  define e where "e = (400 * d) div 146097"
  define y where "y = 1970 + e"
  have e1: "146097 * e \<le> 400 * d" and e2: "400 * d < 146097 * e + 146097"
    using estimate_bounds [of d] by (simp_all add: e_def)
  have "400 * DayFromYear (y - 1) \<le> 146097 * (y - 1) - 287810501"
    by (rule DayFromYear_bounds)
  then have lo: "DayFromYear (y - 1) \<le> d"
    using e1 by (simp add: y_def algebra_simps)
  have "146097 * (y + 2) - 287811596 \<le> 400 * DayFromYear (y + 2)"
    by (rule DayFromYear_bounds)
  then have hi: "d < DayFromYear (y + 2)"
    using e2 by (simp add: y_def algebra_simps)
  have "YearFromDay d = (if d < DayFromYear y then y - 1
         else if DayFromYear (y + 1) \<le> d then y + 1 else y)"
    by (simp add: YearFromDay_def y_def e_def Let_def)
  with lo hi show ?thesis
    by (auto simp: add.commute)
qed

text \<open>Writing a number in decimal and reading it back; padding keeps the value.\<close>

lemma digit_cases: "d < 10 \<Longrightarrow> d \<in> {0, 1, 2, 3, 4, 5, 6, 7, 8, 9::nat}"
  by auto

lemma digit_char_props:
  assumes "d < 10"
  shows "is_digit (digit_char d)" and "digit_value (digit_char d) = int d"
  using digit_cases [OF assms]
  by (auto simp: is_digit_def digit_value_def digit_char_def)

lemma number_snoc: "number (xs @ [c]) = 10 * number xs + digit_value c"
  by (simp add: number_def)

lemma number_decimal: "number (decimal n) = int n"
proof (induction n rule: decimal.induct)
  case (1 n)
  show ?case
  proof (cases "n < 10")
    case True
    then show ?thesis
      by (subst decimal.simps) (simp add: number_def digit_char_props)
  next
    case False
    then have "number (decimal n) = 10 * number (decimal (n div 10)) + digit_value (digit_char (n mod 10))"
      by (subst decimal.simps) (simp add: number_snoc)
    with False 1 show ?thesis
      by (simp add: digit_char_props zdiv_int zmod_int)
  qed
qed

lemma digits_decimal: "list_all is_digit (decimal n)"
proof (induction n rule: decimal.induct)
  case (1 n)
  show ?case
  proof (cases "n < 10")
    case True
    then show ?thesis
      by (subst decimal.simps) (simp add: digit_char_props)
  next
    case False
    with 1 show ?thesis
      by (subst decimal.simps) (simp add: digit_char_props)
  qed
qed

lemma length_decimal: "0 < w \<Longrightarrow> n < 10 ^ w \<Longrightarrow> length (decimal n) \<le> w"
proof (induction w arbitrary: n)
  case 0
  then show ?case by simp
next
  case (Suc w)
  show ?case
  proof (cases "n < 10")
    case True
    then show ?thesis
      by (subst decimal.simps) simp
  next
    case False
    then have w: "0 < w"
      using Suc.prems by (cases w) auto
    have "n div 10 < 10 ^ w"
      using Suc.prems by (simp add: less_mult_imp_div_less mult.commute)
    from Suc.IH [OF w this] False show ?thesis
      by (subst decimal.simps) simp
  qed
qed

lemma number_zeros: "number (replicate k CHR ''0'' @ xs) = number xs"
  by (induction k) (simp_all add: number_def digit_value_def)

lemma pad_props:
  assumes "0 \<le> n" and "n < 10 ^ w" and "0 < w"
  shows "length (pad w n) = w" and "number (pad w n) = n" and "list_all is_digit (pad w n)"
proof -
  have "nat n < 10 ^ w"
    using assms(1,2) by (simp add: nat_less_iff)
  then have "length (decimal (nat n)) \<le> w"
    using assms(3) by (simp add: length_decimal)
  then show "length (pad w n) = w"
    by (simp add: pad_def Let_def)
  show "number (pad w n) = n"
    using assms(1) by (simp add: pad_def Let_def number_zeros number_decimal)
  have "list_all is_digit (replicate k CHR ''0'')" for k
    by (simp add: list_all_iff is_digit_def)
  then show "list_all is_digit (pad w n)"
    by (simp add: pad_def Let_def digits_decimal)
qed

text \<open>A year has 366 days if it is a leap year and 365 otherwise.\<close>

lemma div_step:
  fixes a k :: int
  assumes "0 < k"
  shows "(a + 1) div k = a div k + (if (a + 1) mod k = 0 then 1 else 0)"
proof (cases "a mod k + 1 < k")
  case True
  have nn: "0 \<le> a mod k + 1"
    using pos_mod_sign [OF assms, of a] by linarith
  have "a + 1 = k * (a div k) + (a mod k + 1)"
    by simp
  from int_div_pos_eq [OF this nn True] int_mod_pos_eq [OF this nn True]
  have "(a + 1) div k = a div k" and "(a + 1) mod k = a mod k + 1" .
  moreover have "a mod k + 1 \<noteq> 0"
    using pos_mod_sign [OF assms, of a] by linarith
  ultimately show ?thesis
    by simp
next
  case False
  then have m: "a mod k + 1 = k"
    using pos_mod_bound [OF assms, of a] by linarith
  have "a = k * (a div k) + a mod k"
    by simp
  with m have "a + 1 = k * (a div k) + k"
    by linarith
  then have "a + 1 = k * (a div k + 1) + 0"
    by (simp add: algebra_simps)
  from int_div_pos_eq [OF this _ assms] int_mod_pos_eq [OF this _ assms]
  have "(a + 1) div k = a div k + 1" and "(a + 1) mod k = 0"
    by simp_all
  then show ?thesis
    by simp
qed

lemma mod_shift:
  fixes y :: int
  shows "(y - 1968) mod 4 = y mod 4" and "(y - 1900) mod 100 = y mod 100"
    and "(y - 1600) mod 400 = y mod 400"
  using mod_mult_self1 [of y "- 492" 4] mod_mult_self1 [of y "- 19" 100]
    mod_mult_self1 [of y "- 4" 400]
  by simp_all

lemma mod_chain:
  fixes y :: int
  shows "y mod 400 = 0 \<Longrightarrow> y mod 100 = 0" and "y mod 100 = 0 \<Longrightarrow> y mod 4 = 0"
  using mod_mod_cancel [of 100 400 y] mod_mod_cancel [of 4 100 y] by simp_all

lemma DayFromYear_step:
  "DayFromYear (y + 1) = DayFromYear y + (if InLeapYear y then 366 else 365)"
proof -
  define i1 i2 i3 :: int where "i1 = (if y mod 4 = 0 then 1 else 0)"
    and "i2 = (if y mod 100 = 0 then 1 else 0)" and "i3 = (if y mod 400 = 0 then 1 else 0)"
  have a: "y + 1 - 1969 = (y - 1969) + 1" "y + 1 - 1901 = (y - 1901) + 1"
    "y + 1 - 1601 = (y - 1601) + 1"
    "y - 1969 + 1 = y - 1968" "y - 1901 + 1 = y - 1900" "y - 1601 + 1 = y - 1600"
    by simp_all
  have 1: "(y + 1 - 1969) div 4 = (y - 1969) div 4 + i1"
    unfolding a(1) i1_def using div_step [of 4 "y - 1969"] by (simp add: a mod_shift)
  have 2: "(y + 1 - 1901) div 100 = (y - 1901) div 100 + i2"
    unfolding a(2) i2_def using div_step [of 100 "y - 1901"] by (simp add: a mod_shift)
  have 3: "(y + 1 - 1601) div 400 = (y - 1601) div 400 + i3"
    unfolding a(3) i3_def using div_step [of 400 "y - 1601"] by (simp add: a mod_shift)
  have D: "DayFromYear (y + 1) = DayFromYear y + (365 + i1 - i2 + i3)"
    unfolding DayFromYear_def 1 2 3 by simp
  have "365 + i1 - i2 + i3 = (if InLeapYear y then 366 else 365)"
  proof (cases "y mod 400 = 0")
    case True
    then show ?thesis
      using mod_chain [of y] by (simp add: i1_def i2_def i3_def InLeapYear_def)
  next
    case n400: False
    show ?thesis
    proof (cases "y mod 100 = 0")
      case True
      with n400 show ?thesis
        using mod_chain(2) [of y] by (simp add: i1_def i2_def i3_def InLeapYear_def)
    next
      case False
      with n400 show ?thesis
        by (simp add: i1_def i2_def i3_def InLeapYear_def)
    qed
  qed
  with D show ?thesis
    by simp
qed

text \<open>
  Within a year the table of month starts yields a month from 0 to 11 and a day of the
  month that exists in that month.
\<close>

lemma month_table:
  assumes "0 \<le> d" and "d < (if leap then 366 else 365)"
  defines "m \<equiv> MonthFromDay leap d"
  shows "0 \<le> m \<and> m \<le> 11 \<and> month_start leap m \<le> d \<and>
         d - month_start leap m + 1 \<le> 31 \<and>
         d - month_start leap m + 1 \<le>
           (if m = 11 then 31 else month_start leap (m + 1) - month_start leap m)"
proof -
  define l :: int where "l = (if leap then 1 else 0)"
  have l: "0 \<le> l" "l \<le> 1" and d: "d < 365 + l"
    using assms(2) by (auto simp: l_def)
  have S: "month_start leap 0 = 0" "month_start leap 1 = 31" "month_start leap 2 = 59 + l"
    "month_start leap 3 = 90 + l" "month_start leap 4 = 120 + l" "month_start leap 5 = 151 + l"
    "month_start leap 6 = 181 + l" "month_start leap 7 = 212 + l" "month_start leap 8 = 243 + l"
    "month_start leap 9 = 273 + l" "month_start leap 10 = 304 + l" "month_start leap 11 = 334 + l"
    by (simp_all add: month_start_def l_def)
  consider (c0) "d < 31"
    | (c1) "31 \<le> d" "d < 59 + l"
    | (c2) "59 + l \<le> d" "d < 90 + l"
    | (c3) "90 + l \<le> d" "d < 120 + l"
    | (c4) "120 + l \<le> d" "d < 151 + l"
    | (c5) "151 + l \<le> d" "d < 181 + l"
    | (c6) "181 + l \<le> d" "d < 212 + l"
    | (c7) "212 + l \<le> d" "d < 243 + l"
    | (c8) "243 + l \<le> d" "d < 273 + l"
    | (c9) "273 + l \<le> d" "d < 304 + l"
    | (c10) "304 + l \<le> d" "d < 334 + l"
    | (c11) "334 + l \<le> d"
    by linarith
  then show ?thesis
  proof cases
    case c0
    with l have "m = 0"
      unfolding m_def MonthFromDay_def S by simp
    with c0 l d assms(1) show ?thesis
      by (simp add: S)
  next
    case c1
    with l have "m = 1"
      unfolding m_def MonthFromDay_def S by simp
    with c1 l d assms(1) show ?thesis
      by (simp add: S)
  next
    case c2
    with l have "m = 2"
      unfolding m_def MonthFromDay_def S by simp
    with c2 l d assms(1) show ?thesis
      by (simp add: S)
  next
    case c3
    with l have "m = 3"
      unfolding m_def MonthFromDay_def S by simp
    with c3 l d assms(1) show ?thesis
      by (simp add: S)
  next
    case c4
    with l have "m = 4"
      unfolding m_def MonthFromDay_def S by simp
    with c4 l d assms(1) show ?thesis
      by (simp add: S)
  next
    case c5
    with l have "m = 5"
      unfolding m_def MonthFromDay_def S by simp
    with c5 l d assms(1) show ?thesis
      by (simp add: S)
  next
    case c6
    with l have "m = 6"
      unfolding m_def MonthFromDay_def S by simp
    with c6 l d assms(1) show ?thesis
      by (simp add: S)
  next
    case c7
    with l have "m = 7"
      unfolding m_def MonthFromDay_def S by simp
    with c7 l d assms(1) show ?thesis
      by (simp add: S)
  next
    case c8
    with l have "m = 8"
      unfolding m_def MonthFromDay_def S by simp
    with c8 l d assms(1) show ?thesis
      by (simp add: S)
  next
    case c9
    with l have "m = 9"
      unfolding m_def MonthFromDay_def S by simp
    with c9 l d assms(1) show ?thesis
      by (simp add: S)
  next
    case c10
    with l have "m = 10"
      unfolding m_def MonthFromDay_def S by simp
    with c10 l d assms(1) show ?thesis
      by (simp add: S)
  next
    case c11
    with l have "m = 11"
      unfolding m_def MonthFromDay_def S by simp
    with c11 l d assms(1) show ?thesis
      by (simp add: S)
  qed
qed

text \<open>Hours, minutes, seconds and milliseconds add up to the time within the day.\<close>

lemma time_within_day:
  fixes ms :: int
  assumes "0 \<le> ms" and "ms < 86400000"
  shows "0 \<le> ms div 3600000 \<and> ms div 3600000 \<le> 23 \<and>
         ms div 3600000 * 3600000 + ms div 60000 mod 60 * 60000 + ms div 1000 mod 60 * 1000 +
           ms mod 1000 = ms"
proof -
  define s mi h where "s = ms div 1000" and "mi = s div 60" and "h = mi div 60"
  have mi: "ms div 60000 = mi"
    using zdiv_zmult2_eq [of 60 ms 1000] by (simp add: mi_def s_def)
  have h: "ms div 3600000 = h"
    using zdiv_zmult2_eq [of 60 ms 60000] mi by (simp add: h_def)
  have e0: "ms = 1000 * s + ms mod 1000" and e1: "s = 60 * mi + s mod 60"
    and e2: "mi = 60 * h + mi mod 60"
    by (simp_all add: s_def mi_def h_def)
  have b: "0 \<le> ms mod 1000" "0 \<le> s mod 60" "0 \<le> mi mod 60"
    by simp_all
  have "0 \<le> h"
    using assms(1) by (simp add: h_def mi_def s_def pos_imp_zdiv_nonneg_iff)
  moreover have "h \<le> 23"
    using e0 e1 e2 b assms(2) by linarith
  moreover have "h * 3600000 + mi mod 60 * 60000 + s mod 60 * 1000 + ms mod 1000 = ms"
    using e0 e1 e2 by linarith
  ultimately show ?thesis
    unfolding mi h by (simp add: s_def)
qed

text \<open>
  The day numbers of a time value lie within 100 million days of the epoch, and their
  years have at most six digits.
\<close>

lemma day_range:
  fixes t :: int
  assumes "- 8640000000000000 \<le> t" and "t \<le> 8640000000000000"
  shows "- 100000000 \<le> t div 86400000" and "t div 86400000 \<le> 100000000"
    and "0 \<le> t mod 86400000" and "t mod 86400000 < 86400000"
    and "t div 86400000 * 86400000 + t mod 86400000 = t"
proof -
  have e: "t = 86400000 * (t div 86400000) + t mod 86400000"
    by simp
  show m: "0 \<le> t mod 86400000" "t mod 86400000 < 86400000"
    by simp_all
  show "- 100000000 \<le> t div 86400000"
    using e m assms(1) by linarith
  show "t div 86400000 \<le> 100000000"
    using e m assms(2) by linarith
  show "t div 86400000 * 86400000 + t mod 86400000 = t"
    by simp
qed

lemma year_magnitude:
  assumes "- 100000000 \<le> d" and "d \<le> 100000000"
  shows "- 999999 \<le> YearFromDay d" and "YearFromDay d \<le> 999999"
proof -
  define y where "y = YearFromDay d"
  have s1: "DayFromYear y \<le> d" and s2: "d < DayFromYear (y + 1)"
    using YearFromDay_spec [of d] by (simp_all add: y_def)
  have "400 * DayFromYear (y + 1) \<le> 146097 * (y + 1) - 287810501"
    by (rule DayFromYear_bounds)
  then have "400 * DayFromYear (y + 1) \<le> 146097 * y - 287664404"
    by (simp add: algebra_simps)
  with s2 assms(1) have "- 999999 \<le> y"
    by linarith
  then show "- 999999 \<le> YearFromDay d"
    by (simp add: y_def)
  have "146097 * y - 287811596 \<le> 400 * DayFromYear y"
    by (rule DayFromYear_bounds)
  with s1 assms(2) have "y \<le> 999999"
    by linarith
  then show "YearFromDay d \<le> 999999"
    by (simp add: y_def)
qed

text \<open>The reader takes a text of the ISO layout apart into its fields.\<close>

lemma parse_tail_layout:
  assumes "length M = 2" and "length D = 2" and "length H = 2"
    and "length Mi = 2" and "length S = 2" and "length Ms = 3"
    and "list_all is_digit M" and "list_all is_digit D"
    and "list_all is_digit H" and "list_all is_digit Mi" and "list_all is_digit S"
    and "list_all is_digit Ms"
  shows "parse_tail y (''-'' @ M @ ''-'' @ D @ ''T'' @ H @ '':'' @ Mi @ '':'' @ S @ ''.'' @ Ms @ ''Z'')
         = MakeTime y (number M) (number D) (number H) (number Mi) (number S) (number Ms)"
  using assms by (simp add: parse_tail_def nth_append)

lemma digit_no_sign: "is_digit c \<Longrightarrow> c \<noteq> CHR ''+'' \<and> c \<noteq> CHR ''-''"
  by (auto simp: is_digit_def)

lemma parse_plain_year:
  assumes "length Y = 4" and "list_all is_digit Y"
  shows "parse_iso8601 (Y @ rest) = parse_tail (number Y) rest"
proof -
  from assms(1) obtain c cs where Y: "Y = c # cs"
    by (cases Y) auto
  with assms(2) have "is_digit c"
    by simp
  then have c: "c \<noteq> CHR ''+''" "c \<noteq> CHR ''-''"
    using digit_no_sign by blast+
  have t: "take 4 (Y @ rest) = Y" "drop 4 (Y @ rest) = rest"
    using assms(1) by simp_all
  have "parse_iso8601 (Y @ rest) =
      (let ys = take 4 (Y @ rest)
       in if length ys = 4 \<and> list_all is_digit ys then parse_tail (number ys) (drop 4 (Y @ rest))
          else None)"
    unfolding Y using c by (simp add: parse_iso8601_def)
  then show ?thesis
    using assms by (simp add: t)
qed

lemma parse_year_text:
  assumes "- 999999 \<le> y" and "y \<le> 999999"
  shows "parse_iso8601 (year_text y @ rest) = parse_tail y rest"
proof -
  consider (plain) "0 \<le> y" "y \<le> 9999" | (minus) "y < 0" | (plus) "9999 < y"
    by linarith
  then show ?thesis
  proof cases
    case plain
    then have P: "length (pad 4 y) = 4" "number (pad 4 y) = y" "list_all is_digit (pad 4 y)"
      by (simp_all add: pad_props)
    have "parse_iso8601 (pad 4 y @ rest) = parse_tail y rest"
      using parse_plain_year [OF P(1) P(3), of rest] by (simp add: P(2))
    with plain show ?thesis
      by (simp add: year_text_def)
  next
    case minus
    with assms have P: "length (pad 6 (- y)) = 6" "number (pad 6 (- y)) = - y"
      "list_all is_digit (pad 6 (- y))"
      by (simp_all add: pad_props)
    have "parse_iso8601 (''-'' @ pad 6 (- y) @ rest) = parse_tail y rest"
      using P minus by (simp add: parse_iso8601_def)
    with minus show ?thesis
      by (simp add: year_text_def)
  next
    case plus
    with assms have P: "length (pad 6 y) = 6" "number (pad 6 y) = y" "list_all is_digit (pad 6 y)"
      by (simp_all add: pad_props)
    have "parse_iso8601 (''+'' @ pad 6 y @ rest) = parse_tail y rest"
      using P by (simp add: parse_iso8601_def)
    with plus show ?thesis
      by (simp add: year_text_def)
  qed
qed

text \<open>
  Reading back what \<open>toISOString\<close> writes gives the instant written, for every number
  in the range of a time value.
\<close>

lemma parse_toISOString:
  assumes "- 8640000000000000 \<le> t" and "t \<le> 8640000000000000"
  shows "parse_iso8601 (toISOString t) = Some t"
proof -
  define day ms where "day = t div 86400000" and "ms = t mod 86400000"
  define y where "y = YearFromDay day"
  define leap where "leap = InLeapYear y"
  define d where "d = day - DayFromYear y"
  define m where "m = MonthFromDay leap d"
  define date where "date = d - month_start leap m + 1"
  define h mi s r where "h = ms div 3600000" and "mi = ms div 60000 mod 60"
    and "s = ms div 1000 mod 60" and "r = ms mod 1000"
  have day: "- 100000000 \<le> day" "day \<le> 100000000" and ms: "0 \<le> ms" "ms < 86400000"
    and t: "day * 86400000 + ms = t"
    using day_range [OF assms] by (simp_all add: day_def ms_def)
  have y: "- 999999 \<le> y" "y \<le> 999999"
    using year_magnitude [OF day] by (simp_all add: y_def)
  have d: "0 \<le> d" "d < (if leap then 366 else 365)"
    using YearFromDay_spec [of day] DayFromYear_step [of y]
    by (simp_all add: d_def y_def leap_def)
  note mt = month_table [OF d, folded m_def, folded date_def]
  have m: "0 \<le> m" "m \<le> 11" "date \<le> 31"
    and dim: "date \<le> (if m = 11 then 31 else month_start leap (m + 1) - month_start leap m)"
    using mt by blast+
  have date: "1 \<le> date"
    using mt by (simp add: date_def)
  have tod: "0 \<le> h" "h \<le> 23" and sum: "h * 3600000 + mi * 60000 + s * 1000 + r = ms"
    using time_within_day [OF ms] by (simp_all add: h_def mi_def s_def r_def)
  have bounds: "0 \<le> mi" "mi < 60" "0 \<le> s" "s < 60" "0 \<le> r" "r < 1000"
    by (simp_all add: mi_def s_def r_def)
  have civil: "civil day = (y, m + 1, date)"
    by (simp add: civil_def Let_def y_def d_def m_def date_def leap_def)
  have iso: "toISOString t =
      year_text y @ ''-'' @ pad 2 (m + 1) @ ''-'' @ pad 2 date @ ''T'' @ pad 2 h @ '':'' @
      pad 2 mi @ '':'' @ pad 2 s @ ''.'' @ pad 3 r @ ''Z''"
    using civil
    by (simp add: toISOString_def Let_def day_def ms_def h_def mi_def s_def r_def)
  have Pm: "length (pad 2 (m + 1)) = 2" "number (pad 2 (m + 1)) = m + 1"
    "list_all is_digit (pad 2 (m + 1))"
    using m by (simp_all add: pad_props)
  have Pd: "length (pad 2 date) = 2" "number (pad 2 date) = date" "list_all is_digit (pad 2 date)"
    using m date by (simp_all add: pad_props)
  have Ph: "length (pad 2 h) = 2" "number (pad 2 h) = h" "list_all is_digit (pad 2 h)"
    using tod by (simp_all add: pad_props)
  have Pi: "length (pad 2 mi) = 2" "number (pad 2 mi) = mi" "list_all is_digit (pad 2 mi)"
    using bounds by (simp_all add: pad_props)
  have Ps: "length (pad 2 s) = 2" "number (pad 2 s) = s" "list_all is_digit (pad 2 s)"
    using bounds by (simp_all add: pad_props)
  have Pr: "length (pad 3 r) = 3" "number (pad 3 r) = r" "list_all is_digit (pad 3 r)"
    using bounds by (simp_all add: pad_props)
  have "parse_iso8601 (toISOString t) =
      parse_tail y (''-'' @ pad 2 (m + 1) @ ''-'' @ pad 2 date @ ''T'' @ pad 2 h @ '':'' @
        pad 2 mi @ '':'' @ pad 2 s @ ''.'' @ pad 3 r @ ''Z'')"
    unfolding iso by (rule parse_year_text [OF y])
  also have "\<dots> = MakeTime y (m + 1) date h mi s r"
    using parse_tail_layout [OF Pm(1) Pd(1) Ph(1) Pi(1) Ps(1) Pr(1) Pm(3) Pd(3) Ph(3)
        Pi(3) Ps(3) Pr(3), of y]
    by (simp only: Pm(2) Pd(2) Ph(2) Pi(2) Ps(2) Pr(2))
  also have "\<dots> = Some ((DayFromYear y + month_start leap m + date - 1) * 86400000 +
      h * 3600000 + mi * 60000 + s * 1000 + r)"
    using m date dim tod bounds
    by (auto simp: MakeTime_def DaysInMonth_def leap_def [symmetric] split: if_splits)
  also have "DayFromYear y + month_start leap m + date - 1 = day"
    by (simp add: date_def d_def)
  also have "day * 86400000 + h * 3600000 + mi * 60000 + s * 1000 + r = t"
    using sum t by linarith
  finally show ?thesis .
qed

section \<open>The smoke-test route\<close>

lemma millis_range: "- 8640000000000000 \<le> millis x" "millis x \<le> 8640000000000000"
  using millis [of x] by simp_all

lemma test_ci_served:
  assumes "req_method req = ''GET''" and "pathname req = ''/test-ci''"
    and "jsonParser json_ok req = None"
  shows "app json_ok etag env c req = test_ci_handler etag c req"
    and "status (app json_ok etag env c req) \<in> {200, 304}"
    and "if_none_match req = NoneMatchAbsent \<Longrightarrow> status (app json_ok etag env c req) = 200"
    and "status (app json_ok etag env c req) = 200 \<Longrightarrow>
         app json_ok etag env c req =
           \<lparr>status = 200,
            content = Json (JObject
              [(''message'', JString ''Bhai!...mai bhi deploy hogya. badhai ho bhai''),
               (''timestamp'', JString (toISOString (millis (now c))))])\<rparr>"
proof -
  have "router routes [] etag c req = Some (test_ci_handler etag c req)"
    using assms(1,2) by (simp add: router_test_ci handles_GET)
  then show a: "app json_ok etag env c req = test_ci_handler etag c req"
    using assms(3) by (simp add: app_passed)
  show "status (app json_ok etag env c req) \<in> {200, 304}"
    unfolding a by (rule handler_status)
  show "status (app json_ok etag env c req) = 200" if "if_none_match req = NoneMatchAbsent"
    unfolding a using that assms(1)
    by (simp add: test_ci_handler_def res_json_def send_GET fresh_unconditional)
  show "app json_ok etag env c req =
           \<lparr>status = 200,
            content = Json (JObject
              [(''message'', JString ''Bhai!...mai bhi deploy hogya. badhai ho bhai''),
               (''timestamp'', JString (toISOString (millis (now c))))])\<rparr>"
    if "status (app json_ok etag env c req) = 200"
    using that assms(1) unfolding a
    by (simp add: test_ci_handler_def res_json_def send_GET split: if_splits)
qed

lemma instant_served:
  assumes "req_method req = ''GET''" and "pathname req = ''/test-ci''"
    and "jsonParser json_ok req = None" and "status (app json_ok etag env c req) = 200"
  shows "instant (app json_ok etag env c req) = Some (millis (now c))"
  unfolding test_ci_served(4) [OF assms]
  by (simp add: instant_def field_def parse_toISOString millis_range)

text \<open>
  Claim C7, as stated, fails in three ways. A GET request for \<^verbatim>\<open>/test-ci\<close> with a JSON
  body that does not parse is answered with the error page, status 400, which has no
  \<^verbatim>\<open>message\<close> member. One with \<^verbatim>\<open>If-None-Match: *\<close> is answered with status 304 and
  no body. And when the wall clock is set back between two calls, the later call (the
  one with the larger process uptime) carries the earlier timestamp.
\<close>

theorem test_ci_counterexample:
  "app top (\<lambda>b. ''tag'') Map.empty \<lparr>uptime = 0, now = time_value 1700000000000\<rparr>
     \<lparr>req_method = ''GET'', pathname = ''/test-ci'', query = [], has_body = True,
      media_type = ''application/json'', charset = [], payload = Text ''x'',
      if_none_match = NoneMatchAbsent, if_modified_since = False, no_cache = False\<rparr> =
     \<lparr>status = 400, content = ErrorPage (StackTrace StrictViolation)\<rparr> \<and>
   app top (\<lambda>b. ''tag'') Map.empty \<lparr>uptime = 0, now = time_value 1700000000000\<rparr>
     \<lparr>req_method = ''GET'', pathname = ''/test-ci'', query = [], has_body = False,
      media_type = [], charset = [], payload = Text [],
      if_none_match = NoneMatchAny, if_modified_since = False, no_cache = False\<rparr> =
     \<lparr>status = 304, content = Empty\<rparr> \<and>
   instant (app top (\<lambda>b. ''tag'') Map.empty \<lparr>uptime = 1, now = time_value 1700000001000\<rparr>
     \<lparr>req_method = ''GET'', pathname = ''/test-ci'', query = [], has_body = False,
      media_type = [], charset = [], payload = Text [],
      if_none_match = NoneMatchAbsent, if_modified_since = False, no_cache = False\<rparr>) = Some 1700000001000 \<and>
   instant (app top (\<lambda>b. ''tag'') Map.empty \<lparr>uptime = 2, now = time_value 1700000000000\<rparr>
     \<lparr>req_method = ''GET'', pathname = ''/test-ci'', query = [], has_body = False,
      media_type = [], charset = [], payload = Text [],
      if_none_match = NoneMatchAbsent, if_modified_since = False, no_cache = False\<rparr>) = Some 1700000000000"
proof -
  let ?r = "\<lparr>req_method = ''GET'', pathname = ''/test-ci'', query = [], has_body = False,
       media_type = [], charset = [], payload = Text [],
       if_none_match = NoneMatchAbsent, if_modified_since = False, no_cache = False\<rparr>"
  have r: "req_method ?r = ''GET''" "pathname ?r = ''/test-ci''" "jsonParser top ?r = None"
    "if_none_match ?r = NoneMatchAbsent"
    by (simp_all add: jsonParser_def)
  have "instant (app top (\<lambda>b. ''tag'') Map.empty c ?r) = Some (millis (now c))" for c
    by (rule instant_served [OF r(1,2,3) test_ci_served(3) [OF r(1,2,3,4)]])
  then have "instant (app top (\<lambda>b. ''tag'') Map.empty \<lparr>uptime = 1, now = time_value 1700000001000\<rparr> ?r) = Some 1700000001000"
    and "instant (app top (\<lambda>b. ''tag'') Map.empty \<lparr>uptime = 2, now = time_value 1700000000000\<rparr> ?r) = Some 1700000000000"
    by (simp_all add: time_value_inverse)
  moreover have "app top (\<lambda>b. ''tag'') Map.empty \<lparr>uptime = 0, now = time_value 1700000000000\<rparr>
     \<lparr>req_method = ''GET'', pathname = ''/test-ci'', query = [], has_body = True,
      media_type = ''application/json'', charset = [], payload = Text ''x'',
      if_none_match = NoneMatchAbsent, if_modified_since = False, no_cache = False\<rparr> =
     \<lparr>status = 400, content = ErrorPage (StackTrace StrictViolation)\<rparr>"
    by (simp add: app_def jsonParser_def parse_def firstchar_def is_ws_def finalhandler_def
        write_page_def env_setting_def getenv_def js_or_def)
  moreover have "app top (\<lambda>b. ''tag'') Map.empty \<lparr>uptime = 0, now = time_value 1700000000000\<rparr>
     \<lparr>req_method = ''GET'', pathname = ''/test-ci'', query = [], has_body = False,
      media_type = [], charset = [], payload = Text [],
      if_none_match = NoneMatchAny, if_modified_since = False, no_cache = False\<rparr> =
     \<lparr>status = 304, content = Empty\<rparr>"
    by (simp add: app_def jsonParser_def router_test_ci handles_GET test_ci_handler_def
        res_json_def send_GET fresh_def)
  ultimately show ?thesis
    by blast
qed

text \<open>
  Claim C7, amended. Every GET request for \<^verbatim>\<open>/test-ci\<close> that the body middleware lets
  through is answered with status 200, or with 304 when the framework finds the request
  fresh; a request without \<^verbatim>\<open>If-None-Match\<close> always gets 200. A response with status
  200 carries the same fixed \<^verbatim>\<open>message\<close> on every call and as \<^verbatim>\<open>timestamp\<close> the ISO
  text of the wall clock read at that call, which parses as a valid ISO-8601 UTC
  date-time denoting exactly that reading. The timestamps of two such responses are
  therefore ordered exactly as the two wall clock readings: equal or increasing as long
  as the wall clock is not set back.
\<close>

theorem test_ci_response:
  fixes etag :: "body \<Rightarrow> string" and env :: environ and c1 c2 :: clock
  assumes "req_method r1 = ''GET''" and "pathname r1 = ''/test-ci''"
    and "jsonParser json_ok r1 = None"
    and "req_method r2 = ''GET''" and "pathname r2 = ''/test-ci''"
    and "jsonParser json_ok r2 = None"
  defines "a1 \<equiv> app json_ok etag env c1 r1" and "a2 \<equiv> app json_ok etag env c2 r2"
  shows "status a1 \<in> {200, 304} \<and> status a2 \<in> {200, 304} \<and>
         (if_none_match r1 = NoneMatchAbsent \<longrightarrow> status a1 = 200) \<and>
         (if_none_match r2 = NoneMatchAbsent \<longrightarrow> status a2 = 200) \<and>
         (status a1 = 200 \<longrightarrow>
            field ''message'' a1 = Some (JString ''Bhai!...mai bhi deploy hogya. badhai ho bhai'') \<and>
            field ''timestamp'' a1 = Some (JString (toISOString (millis (now c1)))) \<and>
            instant a1 = Some (millis (now c1))) \<and>
         (status a2 = 200 \<longrightarrow>
            field ''message'' a2 = Some (JString ''Bhai!...mai bhi deploy hogya. badhai ho bhai'') \<and>
            field ''timestamp'' a2 = Some (JString (toISOString (millis (now c2)))) \<and>
            instant a2 = Some (millis (now c2))) \<and>
         (status a1 = 200 \<and> status a2 = 200 \<longrightarrow>
            (the (instant a1) \<le> the (instant a2) \<longleftrightarrow> millis (now c1) \<le> millis (now c2)))"
proof -
  note s1 = test_ci_served [OF assms(1,2,3), of etag env c1, folded a1_def]
  note s2 = test_ci_served [OF assms(4,5,6), of etag env c2, folded a2_def]
  note i1 = instant_served [OF assms(1,2,3), of etag env c1, folded a1_def]
  note i2 = instant_served [OF assms(4,5,6), of etag env c2, folded a2_def]
  have f1: "field ''message'' a1 = Some (JString ''Bhai!...mai bhi deploy hogya. badhai ho bhai'') \<and>
      field ''timestamp'' a1 = Some (JString (toISOString (millis (now c1))))"
    if "status a1 = 200"
    unfolding s1(4) [OF that] by (simp add: field_def)
  have f2: "field ''message'' a2 = Some (JString ''Bhai!...mai bhi deploy hogya. badhai ho bhai'') \<and>
      field ''timestamp'' a2 = Some (JString (toISOString (millis (now c2))))"
    if "status a2 = 200"
    unfolding s2(4) [OF that] by (simp add: field_def)
  show ?thesis
    using s1(2,3) s2(2,3) i1 i2 f1 f2 by simp
qed

theorem test_ci_response_witness:
  "instant (app top (\<lambda>b. ''tag'') Map.empty \<lparr>uptime = 1, now = time_value 1700000000000\<rparr>
     \<lparr>req_method = ''GET'', pathname = ''/test-ci'', query = [], has_body = False,
      media_type = [], charset = [], payload = Text [],
      if_none_match = NoneMatchAbsent, if_modified_since = False, no_cache = False\<rparr>) = Some 1700000000000 \<and>
   instant (app top (\<lambda>b. ''tag'') Map.empty \<lparr>uptime = 2, now = time_value 1700000001000\<rparr>
     \<lparr>req_method = ''GET'', pathname = ''/test-ci'', query = [], has_body = False,
      media_type = [], charset = [], payload = Text [],
      if_none_match = NoneMatchAbsent, if_modified_since = False, no_cache = False\<rparr>) = Some 1700000001000"
  using test_ci_response [where ?r1.0 = "\<lparr>req_method = ''GET'', pathname = ''/test-ci'', query = [], has_body = False,
         media_type = [], charset = [], payload = Text [],
         if_none_match = NoneMatchAbsent, if_modified_since = False, no_cache = False\<rparr>"
      and ?r2.0 = "\<lparr>req_method = ''GET'', pathname = ''/test-ci'', query = [], has_body = False,
         media_type = [], charset = [], payload = Text [],
         if_none_match = NoneMatchAbsent, if_modified_since = False, no_cache = False\<rparr>"
      and json_ok = top and etag = "(\<lambda>b. ''tag'')" and env = Map.empty
      and ?c1.0 = "\<lparr>uptime = 1, now = time_value 1700000000000\<rparr>"
      and ?c2.0 = "\<lparr>uptime = 2, now = time_value 1700000001000\<rparr>"]
  by (simp add: jsonParser_def time_value_inverse)

text \<open>A concrete rendering, and the two lines of a default startup.\<close>

lemma replicate_two: "replicate 2 c = [c, c]"
  by (simp add: numeral_2_eq_2)

lemma toISOString_example: "toISOString 1700000000000 = ''2023-11-14T22:13:20.000Z''"
  by (simp add: toISOString_def civil_def YearFromDay_def DayFromYear_def InLeapYear_def
      MonthFromDay_def month_start_def year_text_def pad_def decimal.simps digit_char_def Let_def
      replicate_two)

lemma listening_log_default:
  "listening_log Map.empty = [''Server is running on port 9001'', ''Environment: development'']"
  by (simp add: listening_log_def PORT_def js_or_def getenv_def environment_label_def
      decimal.simps digit_char_def)

end
